theory Spec2Isabelle
  imports Complex_Main
begin

section \<open>JavaScript values\<close>

text \<open>
  GridSearchDSVientos.js computes with JavaScript numbers. A number is modelled as a real
  or one of the three special values of IEEE arithmetic, so that every place where the
  program produces or tests \<open>NaN\<close> and \<open>Infinity\<close> is a branch of the model. The
  operations \<open>num_add\<close>, \<open>num_mul\<close>, ... below give the exact result; \<open>round64\<close> rounds
  a real to the nearest double, and the operations \<open>fl_add\<close>, \<open>fl_mul\<close>, ... are the
  rounded ones. The metrics and the error of a prediction use the rounded operations.
  The sign of zero is not modelled.
\<close>

datatype jsnum = NaN | Fin real | PInf | NInf

fun num_neg :: "jsnum \<Rightarrow> jsnum" where
  "num_neg NaN = NaN"
| "num_neg (Fin a) = Fin (- a)"
| "num_neg PInf = NInf"
| "num_neg NInf = PInf"

fun num_add :: "jsnum \<Rightarrow> jsnum \<Rightarrow> jsnum" where
  "num_add (Fin a) (Fin b) = Fin (a + b)"
| "num_add NaN _ = NaN"
| "num_add _ NaN = NaN"
| "num_add PInf NInf = NaN"
| "num_add NInf PInf = NaN"
| "num_add PInf _ = PInf"
| "num_add _ PInf = PInf"
| "num_add NInf _ = NInf"
| "num_add _ NInf = NInf"

definition num_sub :: "jsnum \<Rightarrow> jsnum \<Rightarrow> jsnum" where
  "num_sub a b = num_add a (num_neg b)"

fun num_mul :: "jsnum \<Rightarrow> jsnum \<Rightarrow> jsnum" where
  "num_mul (Fin a) (Fin b) = Fin (a * b)"
| "num_mul NaN _ = NaN"
| "num_mul _ NaN = NaN"
| "num_mul (Fin a) PInf = (if a = 0 then NaN else if 0 < a then PInf else NInf)"
| "num_mul (Fin a) NInf = (if a = 0 then NaN else if 0 < a then NInf else PInf)"
| "num_mul PInf (Fin b) = (if b = 0 then NaN else if 0 < b then PInf else NInf)"
| "num_mul NInf (Fin b) = (if b = 0 then NaN else if 0 < b then NInf else PInf)"
| "num_mul PInf PInf = PInf"
| "num_mul PInf NInf = NInf"
| "num_mul NInf PInf = NInf"
| "num_mul NInf NInf = PInf"

fun num_div :: "jsnum \<Rightarrow> jsnum \<Rightarrow> jsnum" where
  "num_div (Fin a) (Fin b) =
     (if b = 0 then (if a = 0 then NaN else if 0 < a then PInf else NInf) else Fin (a / b))"
| "num_div NaN _ = NaN"
| "num_div _ NaN = NaN"
| "num_div (Fin a) _ = Fin 0"
| "num_div PInf (Fin b) = (if 0 \<le> b then PInf else NInf)"
| "num_div NInf (Fin b) = (if 0 \<le> b then NInf else PInf)"
| "num_div _ _ = NaN"

fun num_abs :: "jsnum \<Rightarrow> jsnum" where
  "num_abs NaN = NaN"
| "num_abs (Fin a) = Fin \<bar>a\<bar>"
| "num_abs PInf = PInf"
| "num_abs NInf = PInf"

fun num_sqrt :: "jsnum \<Rightarrow> jsnum" where
  "num_sqrt NaN = NaN"
| "num_sqrt (Fin a) = (if a < 0 then NaN else Fin (sqrt a))"
| "num_sqrt PInf = PInf"
| "num_sqrt NInf = NaN"

text \<open>\<open>Math.pow(v, 2)\<close>.\<close>

definition num_pow2 :: "jsnum \<Rightarrow> jsnum" where
  "num_pow2 v = num_mul v v"

text \<open>The comparisons \<open><\<close> and \<open><=\<close>: false as soon as one side is \<open>NaN\<close>.\<close>

fun num_lt :: "jsnum \<Rightarrow> jsnum \<Rightarrow> bool" where
  "num_lt (Fin a) (Fin b) = (a < b)"
| "num_lt NaN _ = False"
| "num_lt _ NaN = False"
| "num_lt _ NInf = False"
| "num_lt PInf _ = False"
| "num_lt _ _ = True"

fun num_le :: "jsnum \<Rightarrow> jsnum \<Rightarrow> bool" where
  "num_le (Fin a) (Fin b) = (a \<le> b)"
| "num_le NaN _ = False"
| "num_le _ NaN = False"
| "num_le NInf _ = True"
| "num_le _ PInf = True"
| "num_le _ _ = False"

text \<open>A number is falsy when it is \<open>0\<close> or \<open>NaN\<close>; \<open>a || b\<close> is \<open>a\<close> unless \<open>a\<close> is falsy.\<close>

definition num_truthy :: "jsnum \<Rightarrow> bool" where
  "num_truthy v = (v \<noteq> NaN \<and> v \<noteq> Fin 0)"

definition num_or :: "jsnum \<Rightarrow> jsnum \<Rightarrow> jsnum" where
  "num_or a b = (if num_truthy a then a else b)"

definition isNaN :: "jsnum \<Rightarrow> bool" where
  "isNaN v = (v = NaN)"


section \<open>Rounding to a double\<close>

text \<open>
  \<open>ilog2 n\<close> is the position of the highest bit of \<open>n\<close>; \<open>exponent2 x\<close> is the
  integer \<open>e\<close> with \<open>2^e \<le> |x| < 2^(e+1)\<close>, for \<open>x\<close> other than \<open>0\<close>.
\<close>

fun ilog2 :: "nat \<Rightarrow> nat" where
  "ilog2 n = (if n < 2 then 0 else Suc (ilog2 (n div 2)))"

declare ilog2.simps [simp del]

definition exponent2 :: "real \<Rightarrow> int" where
  "exponent2 x =
     (if 1 \<le> \<bar>x\<bar> then int (ilog2 (nat \<lfloor>\<bar>x\<bar>\<rfloor>))
      else - int (Suc (ilog2 (nat \<lceil>1 / \<bar>x\<bar>\<rceil> - 1))))"

definition pow2 :: "int \<Rightarrow> real" where
  "pow2 e = (if 0 \<le> e then 2 ^ nat e else 1 / 2 ^ nat (- e))"

text \<open>The nearest integer, the even one of two that are equally near.\<close>

definition round_half_even :: "real \<Rightarrow> int" where
  "round_half_even m =
     (let f = \<lfloor>m\<rfloor>; d = m - of_int f
      in if d < 1 / 2 then f else if 1 / 2 < d then f + 1
         else if even f then f else f + 1)"

text \<open>
  The double nearest to a real (binary64, round to nearest, ties to even): 53 bits of
  precision, the least exponent \<open>-1022\<close> (below it the spacing stays \<open>2^-1074\<close>), and
  \<open>Infinity\<close> when the rounded magnitude reaches \<open>2^1024\<close>.
\<close>

definition round64 :: "real \<Rightarrow> jsnum" where
  "round64 x =
     (if x = 0 then Fin 0
      else
        (let q = pow2 (max (exponent2 x) (- 1022) - 52);
             r = of_int (round_half_even (\<bar>x\<bar> / q)) * q
         in if 2 ^ 1024 \<le> r then (if 0 < x then PInf else NInf)
            else Fin (sgn x * r)))"

fun rnd :: "jsnum \<Rightarrow> jsnum" where
  "rnd (Fin a) = round64 a"
| "rnd v = v"

text \<open>
  The operations of the machine: the exact result, rounded. \<open>Math.pow(v, 2)\<close> is taken
  as the correctly rounded square.
\<close>

definition fl_add :: "jsnum \<Rightarrow> jsnum \<Rightarrow> jsnum" where
  "fl_add a b = rnd (num_add a b)"

definition fl_sub :: "jsnum \<Rightarrow> jsnum \<Rightarrow> jsnum" where
  "fl_sub a b = rnd (num_sub a b)"

definition fl_mul :: "jsnum \<Rightarrow> jsnum \<Rightarrow> jsnum" where
  "fl_mul a b = rnd (num_mul a b)"

definition fl_div :: "jsnum \<Rightarrow> jsnum \<Rightarrow> jsnum" where
  "fl_div a b = rnd (num_div a b)"

definition fl_sqrt :: "jsnum \<Rightarrow> jsnum" where
  "fl_sqrt v = rnd (num_sqrt v)"

definition fl_pow2 :: "jsnum \<Rightarrow> jsnum" where
  "fl_pow2 v = rnd (num_pow2 v)"

text \<open>The literal \<open>1e-10\<close>: the double nearest to \<open>10^-10\<close>.\<close>

definition double_1e_10 :: jsnum where
  "double_1e_10 = round64 (1 / 10 ^ 10)"

section \<open>Dates and time series\<close>

text \<open>
  A \<open>Date\<close> holds a time value in milliseconds: an integer of absolute value at most
  \<open>8.64e15\<close>, or \<open>NaN\<close> for an invalid date. \<open>new Date(v)\<close> clips \<open>v\<close> to that range.
\<close>

datatype jsdate = Date jsnum

fun getTime :: "jsdate \<Rightarrow> jsnum" where
  "getTime (Date t) = t"

definition trunc :: "real \<Rightarrow> real" where
  "trunc r = (if 0 \<le> r then of_int \<lfloor>r\<rfloor> else of_int \<lceil>r\<rceil>)"

fun new_Date :: "jsnum \<Rightarrow> jsdate" where
  "new_Date (Fin r) = (if 8640000000000000 < \<bar>r\<bar> then Date NaN else Date (Fin (trunc r)))"
| "new_Date _ = Date NaN"

text \<open>
  A point of a series is \<open>{x, y}\<close>. The reducer of \<open>findClosestValue\<close> starts from
  \<open>{y: 0}\<close>, an object without \<open>x\<close>, so the field is optional. The wind series carries
  \<open>speed\<close> and \<open>direction\<close> as well; its \<open>y\<close> is the speed, and no function of the
  model reads the two other fields of a point.
\<close>

record tspoint =
  point_x :: "jsdate option"
  point_y :: jsnum

text \<open>\<open>p.x?.getTime()\<close>, as a number: \<open>undefined\<close> behaves as \<open>NaN\<close> in \<open>||\<close> and in \<open>-\<close>.\<close>

definition x_time :: "tspoint \<Rightarrow> jsnum" where
  "x_time p = (case point_x p of None \<Rightarrow> NaN | Some d \<Rightarrow> getTime d)"

text \<open>The callback of the \<open>reduce\<close> in \<open>findClosestValue\<close>.\<close>

definition closer :: "jsnum \<Rightarrow> tspoint \<Rightarrow> tspoint \<Rightarrow> tspoint" where
  "closer targetTime prev cur =
     (let currTime = num_or (x_time cur) (Fin 0);
          prevDiff = num_or (num_abs (num_sub (x_time prev) targetTime)) PInf;
          currDiff = num_or (num_abs (num_sub currTime targetTime)) PInf
      in if num_lt currDiff prevDiff then cur else prev)"

text \<open>
  \<open>findClosestValue(data, targetDate)\<close>; \<open>None\<close> stands for a \<open>targetDate\<close> that is
  missing or not a \<open>Date\<close>.
\<close>

definition findClosestValue :: "tspoint list \<Rightarrow> jsdate option \<Rightarrow> jsnum" where
  "findClosestValue data targetDate =
     (case targetDate of
        None \<Rightarrow> Fin 0
      | Some d \<Rightarrow>
          (let targetTime = getTime d
           in if isNaN targetTime then Fin 0
              else point_y (foldl (closer targetTime)
                             \<lparr>point_x = None, point_y = Fin 0\<rparr> data)))"

section \<open>Texts, objects and the operators \<open>+\<close> and \<open>-\<close>\<close>

text \<open>
  A text is a sequence of characters and of number renderings: the characters that
  \<open>Number.prototype.toString\<close> produces for a number are kept as one item, since their
  digits depend on the floating-point value. Such an item never holds \<open>;\<close>, a line
  break or a bracket.
\<close>

datatype tchar = Ch char | NumText jsnum

type_synonym jstext = "tchar list"

definition lit :: "string \<Rightarrow> jstext" where
  "lit s = map Ch s"

datatype jsval = JUndef | JNum jsnum | JStr jstext | JObj "(string \<times> jsval) list"

fun ToString :: "jsval \<Rightarrow> jstext" where
  "ToString JUndef = lit ''undefined''"
| "ToString (JNum v) = [NumText v]"
| "ToString (JStr t) = t"
| "ToString (JObj props) = lit ''[object Object]''"

text \<open>
  Conversion of a text to a number. The empty text is \<open>0\<close> and the rendering of a
  number reads back as that number. Every other text that this program converts holds
  \<open>[object Object]\<close>, which is not a numeric literal, so it is \<open>NaN\<close>; texts of digit
  characters are not parsed here.
\<close>

fun StringToNumber :: "jstext \<Rightarrow> jsnum" where
  "StringToNumber [] = Fin 0"
| "StringToNumber [NumText v] = v"
| "StringToNumber t = NaN"

fun ToNumber :: "jsval \<Rightarrow> jsnum" where
  "ToNumber JUndef = NaN"
| "ToNumber (JNum v) = v"
| "ToNumber (JStr t) = StringToNumber t"
| "ToNumber (JObj props) = NaN"

text \<open>A plain object becomes the text \<open>[object Object]\<close> when \<open>+\<close> asks for a primitive.\<close>

fun is_textual :: "jsval \<Rightarrow> bool" where
  "is_textual (JStr t) = True"
| "is_textual (JObj props) = True"
| "is_textual _ = False"

definition js_add :: "jsval \<Rightarrow> jsval \<Rightarrow> jsval" where
  "js_add a b =
     (if is_textual a \<or> is_textual b then JStr (ToString a @ ToString b)
      else JNum (num_add (ToNumber a) (ToNumber b)))"

definition js_sub :: "jsval \<Rightarrow> jsval \<Rightarrow> jsnum" where
  "js_sub a b = fl_sub (ToNumber a) (ToNumber b)"

fun js_truthy :: "jsval \<Rightarrow> bool" where
  "js_truthy JUndef = False"
| "js_truthy (JNum v) = num_truthy v"
| "js_truthy (JStr t) = (t \<noteq> [])"
| "js_truthy (JObj props) = True"

text \<open>
  Reading a property: of an object, its field or \<open>undefined\<close>; of a number or a text,
  \<open>undefined\<close> for the names used here (\<open>direction\<close>, \<open>speed\<close>), which their prototypes
  do not define.
\<close>

fun get_prop :: "jsval \<Rightarrow> string \<Rightarrow> jsval" where
  "get_prop (JObj props) k = (case map_of props k of None \<Rightarrow> JUndef | Some v \<Rightarrow> v)"
| "get_prop _ k = JUndef"

datatype js_error = TypeError | RangeError

section \<open>RiverModel\<close>

record ModelConfig =
  weights :: "string \<rightharpoonup> jsnum"
  lags :: "string \<rightharpoonup> jsnum"
  windCoeffs :: "string \<rightharpoonup> jsnum"
  windFactor :: jsnum
  offset :: jsnum

record InputData =
  palmas :: "tspoint list"
  itu :: "tspoint list"
  ba :: "tspoint list"
  vientos :: "tspoint list"
  target :: "tspoint list"

text \<open>\<open>obj[key]\<close> used as a number: a missing key is \<open>undefined\<close>, hence \<open>NaN\<close>.\<close>

definition num_at :: "(string \<rightharpoonup> jsnum) \<Rightarrow> string \<Rightarrow> jsnum" where
  "num_at m k = (case m k of None \<Rightarrow> NaN | Some v \<Rightarrow> v)"

text \<open>\<open>targetTime - lagHours * 3600 * 1000\<close>.\<close>

definition lagged :: "jsnum \<Rightarrow> jsnum \<Rightarrow> jsnum" where
  "lagged t lagHours = num_sub t (num_mul (num_mul lagHours (Fin 3600)) (Fin 1000))"

text \<open>
  \<open>calculateComponent\<close>. \<open>targetPoint.x.getTime()\<close> throws a TypeError without \<open>x\<close>, and
  the \<open>laggedDate.toISOString()\<close> of the log line throws a RangeError on an invalid date.
\<close>

definition calculateComponent ::
    "ModelConfig \<Rightarrow> string \<Rightarrow> tspoint \<Rightarrow> tspoint list \<Rightarrow> js_error + jsnum" where
  "calculateComponent cfg source targetPoint data =
     (case point_x targetPoint of
        None \<Rightarrow> Inl TypeError
      | Some d \<Rightarrow>
          (let laggedDate = new_Date (lagged (getTime d) (num_at (lags cfg) source));
               val = findClosestValue data (Some laggedDate);
               contribution = num_mul val (num_at (weights cfg) source)
           in if isNaN (getTime laggedDate) then Inl RangeError else Inr contribution))"

definition getDefaultWindValues :: jsval where
  "getDefaultWindValues =
     JObj [(''direction'', JStr (lit ''N'')), (''speed'', JNum (Fin 0)),
           (''contribution'', JNum (Fin 0))]"

text \<open>
  \<open>this.windCoeffs[key]\<close>: the key is the text of the value; a text holding a number
  rendering names no direction.
\<close>

fun plain :: "jstext \<Rightarrow> string option" where
  "plain [] = Some []"
| "plain (Ch c # t) = map_option ((#) c) (plain t)"
| "plain (NumText v # t) = None"

definition coeff_at :: "(string \<rightharpoonup> jsnum) \<Rightarrow> jsval \<Rightarrow> jsval" where
  "coeff_at m k =
     (case plain (ToString k) of
        None \<Rightarrow> JUndef
      | Some name \<Rightarrow> (case m name of None \<Rightarrow> JUndef | Some v \<Rightarrow> JNum v))"

text \<open>
  \<open>calculateWindComponent\<close>. \<open>windPoint\<close> is what \<open>findClosestValue\<close> returns: the \<open>y\<close>
  of the closest sample, a number. The debugging block between steps 3 and 4 catches its
  own exceptions and changes nothing.
\<close>

definition calculateWindComponent :: "ModelConfig \<Rightarrow> tspoint \<Rightarrow> tspoint list \<Rightarrow> jsval" where
  "calculateWindComponent cfg targetPoint windData =
     (case point_x targetPoint of
        None \<Rightarrow> getDefaultWindValues
      | Some d \<Rightarrow>
          if isNaN (getTime d) then getDefaultWindValues
          else
            (let laggedDate = new_Date (lagged (getTime d) (num_at (lags cfg) ''vientos''))
             in if isNaN (getTime laggedDate) then getDefaultWindValues
                else
                  (let windPoint = JNum (findClosestValue windData (Some laggedDate))
                   in if \<not> js_truthy windPoint \<or> get_prop windPoint ''direction'' = JUndef
                      then getDefaultWindValues
                      else if \<not> js_truthy (coeff_at (windCoeffs cfg) (get_prop windPoint ''direction''))
                              \<or> isNaN (ToNumber (get_prop windPoint ''speed''))
                      then getDefaultWindValues
                      else JNum (num_mul
                             (num_mul (ToNumber (coeff_at (windCoeffs cfg) (get_prop windPoint ''direction'')))
                                      (ToNumber (get_prop windPoint ''speed'')))
                             (windFactor cfg)))))"

text \<open>
  \<open>predict\<close>: the components are computed in the order palmas, itu, ba, wind; the result
  is \<open>palmas + itu + ba + wind + offset\<close>, evaluated from the left.
\<close>

definition predict :: "ModelConfig \<Rightarrow> tspoint \<Rightarrow> InputData \<Rightarrow> js_error + jsval" where
  "predict cfg targetPoint inputData =
     (case calculateComponent cfg ''palmas'' targetPoint (palmas inputData) of
        Inl e \<Rightarrow> Inl e
      | Inr c_palmas \<Rightarrow>
     (case calculateComponent cfg ''itu'' targetPoint (itu inputData) of
        Inl e \<Rightarrow> Inl e
      | Inr c_itu \<Rightarrow>
     (case calculateComponent cfg ''ba'' targetPoint (ba inputData) of
        Inl e \<Rightarrow> Inl e
      | Inr c_ba \<Rightarrow>
          (let c_wind = calculateWindComponent cfg targetPoint (vientos inputData)
           in Inr (js_add (js_add (js_add (js_add (JNum c_palmas) (JNum c_itu)) (JNum c_ba))
                                  c_wind)
                          (JNum (offset cfg)))))))"

subsection \<open>Metrics\<close>

record results =
  predictions :: "jsval list"
  observations :: "jsnum list"
  errors :: "jsnum list"

record metrics =
  r2 :: jsnum
  rmse :: jsnum
  kept_predictions :: "jsval list option"

text \<open>
  \<open>parseFloat(v.toFixed(4))\<close>: \<open>toFixed\<close> takes the integer \<open>n\<close> with \<open>n / 10^4\<close> closest to
  \<open>|v|\<close>, the larger one of two, and restores the sign; from \<open>10^21\<close> on it prints the
  number itself. \<open>parseFloat\<close> gives the double nearest to the decimal printed.
\<close>

fun toFixed4 :: "jsnum \<Rightarrow> jsnum" where
  "toFixed4 (Fin a) =
     (if 10 ^ 21 \<le> \<bar>a\<bar> then Fin a
      else round64 (sgn a * of_int \<lfloor>\<bar>a\<bar> * 10 ^ 4 + 1 / 2\<rfloor> / 10 ^ 4))"
| "toFixed4 v = v"

definition sumSquaredErrors :: "jsnum list \<Rightarrow> jsnum" where
  "sumSquaredErrors errs = foldl (\<lambda>sum err. fl_add sum (fl_mul err err)) (Fin 0) errs"

definition meanObserved :: "jsnum list \<Rightarrow> jsnum" where
  "meanObserved obs =
     fl_div (foldl (\<lambda>sum ob. fl_add sum ob) (Fin 0) obs) (Fin (real (length obs)))"

definition ssTotal :: "jsnum list \<Rightarrow> jsnum" where
  "ssTotal obs =
     foldl (\<lambda>sum ob. fl_add sum (fl_pow2 (fl_sub ob (meanObserved obs)))) (Fin 0) obs"

definition calculateMetrics :: "results \<Rightarrow> metrics" where
  "calculateMetrics res =
     (let n = length (observations res)
      in if n = 0 then \<lparr>r2 = Fin 0, rmse = PInf, kept_predictions = None\<rparr>
         else
           (let sse = sumSquaredErrors (errors res);
                rmse_raw = fl_sqrt (fl_div sse (Fin (real n)));
                sst = ssTotal (observations res);
                r2_raw = (if num_le sst double_1e_10 then Fin 0
                          else fl_sub (Fin 1) (fl_div sse sst))
            in \<lparr>r2 = toFixed4 r2_raw, rmse = toFixed4 rmse_raw,
                kept_predictions = Some (predictions res)\<rparr>))"

text \<open>The body of the loop of \<open>evaluate\<close>, after the prediction is known.\<close>

definition push_result :: "results \<Rightarrow> tspoint \<Rightarrow> jsval \<Rightarrow> results" where
  "push_result res targetPoint prediction =
     \<lparr>predictions = predictions res @ [prediction],
      observations = observations res @ [point_y targetPoint],
      errors = errors res @ [js_sub (JNum (point_y targetPoint)) prediction]\<rparr>"

fun evaluate_loop ::
    "ModelConfig \<Rightarrow> InputData \<Rightarrow> tspoint list \<Rightarrow> results \<Rightarrow> js_error + results" where
  "evaluate_loop cfg inputData [] res = Inr res"
| "evaluate_loop cfg inputData (targetPoint # rest) res =
     (case predict cfg targetPoint inputData of
        Inl e \<Rightarrow> Inl e
      | Inr prediction \<Rightarrow>
          evaluate_loop cfg inputData rest (push_result res targetPoint prediction))"

definition evaluate :: "ModelConfig \<Rightarrow> InputData \<Rightarrow> js_error + metrics" where
  "evaluate cfg inputData =
     (case evaluate_loop cfg inputData (target inputData)
             \<lparr>predictions = [], observations = [], errors = []\<rparr> of
        Inl e \<Rightarrow> Inl e
      | Inr res \<Rightarrow> Inr (calculateMetrics res))"

text \<open>
  The record that \<open>evaluate\<close> hands to \<open>calculateMetrics\<close> when the observations are
  \<open>obs\<close> and the predictions are \<open>preds\<close>.
\<close>

definition results_from :: "jsnum list \<Rightarrow> jsval list \<Rightarrow> results" where
  "results_from obs preds =
     \<lparr>predictions = preds, observations = obs,
      errors = map2 (\<lambda>ob p. js_sub (JNum ob) p) obs preds\<rparr>"

section \<open>Configuration\<close>

record Config =
  resultsDir :: string
  maxWorkers :: nat
  chunkSize :: nat
  maxFileSize :: nat

definition CONFIG :: Config where
  "CONFIG = \<lparr>resultsDir = ''./resultados_parciales'', maxWorkers = 2, chunkSize = 250,
             maxFileSize = 50 * 1024 * 1000\<rparr>"

section \<open>Texts: split, join, trim\<close>

text \<open>\<open>s.split(sep)\<close> for a separator of one character, and \<open>parts.join(sep)\<close>.\<close>

fun split_on :: "'a \<Rightarrow> 'a list \<Rightarrow> 'a list list" where
  "split_on sep [] = [[]]"
| "split_on sep (c # cs) =
     (if c = sep then [] # split_on sep cs
      else (case split_on sep cs of [] \<Rightarrow> [[c]] | p # ps \<Rightarrow> (c # p) # ps))"

fun join_with :: "'a \<Rightarrow> 'a list list \<Rightarrow> 'a list" where
  "join_with sep [] = []"
| "join_with sep [p] = p"
| "join_with sep (p # q # ps) = p @ sep # join_with sep (q # ps)"

text \<open>
  White space for \<open>trim\<close>, among the characters below 256: tab, line feed, vertical tab,
  form feed, carriage return, space and the no-break space.
\<close>

definition is_space :: "char \<Rightarrow> bool" where
  "is_space c = ((of_char c :: nat) \<in> {9, 10, 11, 12, 13, 32, 160})"

definition trim :: "string \<Rightarrow> string" where
  "trim s = rev (dropWhile is_space (rev (dropWhile is_space s)))"

fun startsWith :: "string \<Rightarrow> string \<Rightarrow> bool" where
  "startsWith s [] = True"
| "startsWith [] (c # cs) = False"
| "startsWith (d # ds) (c # cs) = (d = c \<and> startsWith ds cs)"


text \<open>The decimal digits of a counter, as a template literal prints them.\<close>

definition digit_char :: "nat \<Rightarrow> char" where
  "digit_char d = ''0123456789'' ! d"

fun show_nat :: "nat \<Rightarrow> string" where
  "show_nat n = (if n < 10 then [digit_char n] else show_nat (n div 10) @ [digit_char (n mod 10)])"

section \<open>ResultWriter\<close>

definition base_columns :: "string list" where
  "base_columns = [''pesoPalmas'', ''pesoItu'', ''pesoBa'', ''pesoVientos'',
                   ''lagPalmas'', ''lagItu'', ''lagBa'', ''lagVientos'',
                   ''factorViento'', ''offset'']"

definition directions :: "string list" where
  "directions = [''N'', ''NE'', ''E'', ''SE'', ''S'', ''SW'', ''W'', ''NW'']"

definition metric_columns :: "string list" where
  "metric_columns = [''trainR2'', ''testR2'', ''trainRmse'', ''testRmse'']"

definition CSV_COLUMNS :: "string list" where
  "CSV_COLUMNS =
     base_columns
     @ concat (map (\<lambda>dir. [''coef_'' @ dir @ ''_factor'', ''coef_'' @ dir @ ''_peso'']) directions)
     @ metric_columns"

definition header :: jstext where
  "header = lit (join_with CHR '';'' CSV_COLUMNS @ [CHR 0x0A])"





record ResultWriter =
  fileIndex :: nat
  currentSize :: nat
  currentFile :: "string option"

definition new_ResultWriter :: ResultWriter where
  "new_ResultWriter = \<lparr>fileIndex = 0, currentSize = 0, currentFile = None\<rparr>"

text \<open>
  The files of the results directory, by path. \<open>Buffer.byteLength\<close> needs the length of
  each number rendering, the parameter \<open>numlen\<close>. \<open>path.join\<close> is modelled without its
  normalisation of the directory name.
\<close>

type_synonym files = "string \<rightharpoonup> jstext"

definition byteLength :: "(jsnum \<Rightarrow> nat) \<Rightarrow> jstext \<Rightarrow> nat" where
  "byteLength numlen t =
     sum_list (map (\<lambda>c. case c of Ch k \<Rightarrow> (if (of_char k :: nat) < 128 then 1 else 2)
                                | NumText v \<Rightarrow> numlen v) t)"

definition path_join :: "string \<Rightarrow> string \<Rightarrow> string" where
  "path_join dir name = dir @ ''/'' @ name"

definition writeToFile ::
    "(jsnum \<Rightarrow> nat) \<Rightarrow> jstext \<Rightarrow> ResultWriter \<times> files \<Rightarrow> js_error + ResultWriter \<times> files" where
  "writeToFile numlen data st =
     (case st of (w, fs) \<Rightarrow>
        (case currentFile w of
           None \<Rightarrow> Inl TypeError
         | Some filePath \<Rightarrow>
             Inr (w\<lparr>currentSize := currentSize w + byteLength numlen data\<rparr>,
                  fs(filePath \<mapsto> (case fs filePath of None \<Rightarrow> [] | Some old \<Rightarrow> old) @ data))))"

definition openNewFile ::
    "Config \<Rightarrow> (jsnum \<Rightarrow> nat) \<Rightarrow> ResultWriter \<times> files \<Rightarrow> js_error + ResultWriter \<times> files" where
  "openNewFile cfg numlen st =
     (case st of (w, fs) \<Rightarrow>
        (let idx = fileIndex w + 1;
             filePath = path_join (resultsDir cfg) (''results_'' @ show_nat idx @ ''.csv'')
         in writeToFile numlen header
              (\<lparr>fileIndex = idx, currentSize = 0, currentFile = Some filePath\<rparr>,
               fs(filePath \<mapsto> []))))"


text \<open>
  What a worker thread does at start: it reads \<open>workerId\<close> from \<open>workerData\<close>, builds its
  own \<open>ResultWriter\<close> and opens the first file.
\<close>

definition worker_start ::
    "Config \<Rightarrow> (jsnum \<Rightarrow> nat) \<Rightarrow> nat \<Rightarrow> files \<Rightarrow> js_error + ResultWriter \<times> files" where
  "worker_start cfg numlen workerId fs = openNewFile cfg numlen (new_ResultWriter, fs)"

section \<open>combineResults\<close>

definition default_part :: "nat \<Rightarrow> string" where
  "default_part i =
     (if i < 10 then ''0''
      else if i < 26 then (if i mod 2 = 0 then ''0'' else ''0.5'')
      else (if i < 28 then ''-Infinity'' else ''Infinity''))"

definition normalizedParts :: "string \<Rightarrow> string list" where
  "normalizedParts line =
     (let parts = split_on CHR '';'' line
      in map (\<lambda>i. if i < length parts \<and> trim (parts ! i) \<noteq> [] then parts ! i
                   else default_part i) [0..<30])"

text \<open>The rows that one partial file contributes to the final file.\<close>

definition combine_content :: "string \<Rightarrow> string list" where
  "combine_content content =
     concat (map (\<lambda>line. if trim line \<noteq> [] \<and> \<not> startsWith line ''pesoPalmas''
                         then [join_with CHR '';'' (normalizedParts line) @ [CHR 0x0A]]
                         else [])
                 (split_on CHR 0x0A content))"


section \<open>Dispatcher\<close>

text \<open>
  The generator is the list of the parameter sets it has still to yield. A slot of the
  pool holds what \<open>main\<close> keeps for a worker, and \<open>in_flight\<close>, the chunk that the worker
  thread has received and not yet answered. \<open>posted\<close> records every
  \<open>postMessage({type: 'process', data: chunk})\<close>.
\<close>

record 'p worker_slot =
  isBusy :: bool
  w_processed :: jsval
  w_relevant :: jsval
  in_flight :: "'p list option"

record 'p dispatcher =
  workers :: "'p worker_slot list"
  paramsGenerator :: "'p list"
  totalProcessed :: jsval
  totalRelevant :: jsval
  isDone :: bool
  terminated :: bool
  posted :: "(nat \<times> 'p list) list"

record message =
  msg_type :: string
  msg_processed :: jsval
  msg_relevant :: jsval
  msg_error :: jsval

definition init_dispatcher :: "Config \<Rightarrow> 'p list \<Rightarrow> 'p dispatcher" where
  "init_dispatcher cfg params =
     \<lparr>workers = replicate (maxWorkers cfg)
                  \<lparr>isBusy = False, w_processed = JNum (Fin 0), w_relevant = JNum (Fin 0),
                   in_flight = None\<rparr>,
      paramsGenerator = params,
      totalProcessed = JNum (Fin 0), totalRelevant = JNum (Fin 0),
      isDone = False, terminated = False, posted = []\<rparr>"

text \<open>\<open>workers.find(w => !w.isBusy)\<close>, as the index of the slot found.\<close>

fun find_idle :: "'p worker_slot list \<Rightarrow> nat option" where
  "find_idle [] = None"
| "find_idle (w # ws) = (if \<not> isBusy w then Some 0 else map_option Suc (find_idle ws))"

text \<open>
  The loop \<open>for (let i = 0; i < CONFIG.chunkSize; i++)\<close> of \<open>assignWork\<close>: \<open>pull k g chunk\<close>
  has \<open>k\<close> rounds left. When the generator is done the function returns at once,
  \<open>None\<close> here, with the values pulled so far.
\<close>

fun pull :: "nat \<Rightarrow> 'p list \<Rightarrow> 'p list \<Rightarrow> 'p list option \<times> 'p list" where
  "pull 0 g chunk = (Some chunk, g)"
| "pull (Suc k) [] chunk = (None, [])"
| "pull (Suc k) (v # g) chunk = pull k g (chunk @ [v])"

text \<open>\<open>assignWork\<close>: the value it returns and the state it leaves.\<close>

definition assignWork :: "Config \<Rightarrow> 'p dispatcher \<Rightarrow> bool \<times> 'p dispatcher" where
  "assignWork cfg st =
     (case find_idle (workers st) of
        None \<Rightarrow> (False, st)
      | Some k \<Rightarrow>
          (case pull (chunkSize cfg) (paramsGenerator st) [] of
             (None, g) \<Rightarrow> (True, st\<lparr>paramsGenerator := g\<rparr>)
           | (Some chunk, g) \<Rightarrow>
               (False,
                st\<lparr>paramsGenerator := g,
                   workers := (workers st)
                     [k := (workers st ! k)\<lparr>isBusy := True, in_flight := Some chunk\<rparr>],
                   posted := posted st @ [(k, chunk)]\<rparr>)))"

text \<open>The message a worker posts when it has processed and written a chunk.\<close>

definition worker_reply :: "'p list \<Rightarrow> message" where
  "worker_reply paramsChunk =
     \<lparr>msg_type = ''done'', msg_processed = JNum (Fin (real (length paramsChunk))),
      msg_relevant = JUndef, msg_error = JUndef\<rparr>"

text \<open>
  The handler that \<open>assignWork\<close> registers with \<open>once('message', ...)\<close>, for the worker of
  slot \<open>k\<close>. The garbage collection, the progress line and the checkpoint file that it
  triggers are left out; none of them changes the dispatcher.
\<close>

definition on_message :: "nat \<Rightarrow> message \<Rightarrow> 'p dispatcher \<Rightarrow> 'p dispatcher" where
  "on_message k msg st =
     (let w = (workers st ! k)\<lparr>isBusy := False\<rparr>
      in if msg_type msg = ''error'' then st\<lparr>workers := (workers st)[k := w]\<rparr>
         else st\<lparr>workers := (workers st)
                     [k := w\<lparr>w_processed := js_add (w_processed w) (msg_processed msg),
                             w_relevant := js_add (w_relevant w) (msg_relevant msg)\<rparr>],
                 totalProcessed := js_add (totalProcessed st) (msg_processed msg),
                 totalRelevant := js_add (totalRelevant st) (msg_relevant msg)\<rparr>)"

text \<open>
  An execution of \<open>main\<close> is a sequence of events. \<open>Iterate\<close> is one round of the loop
  \<open>while (!isDone)\<close>; \<open>Deliver k\<close> is the arrival of the answer of worker \<open>k\<close>, which
  can happen at any \<open>await\<close>, as soon as the worker holds a chunk; \<open>Finish\<close> is what
  follows the loop: the workers are terminated and \<open>combineResults\<close> runs.
\<close>

datatype event = Iterate | Deliver nat | Finish

definition step :: "Config \<Rightarrow> event \<Rightarrow> 'p dispatcher \<Rightarrow> 'p dispatcher option" where
  "step cfg ev st =
     (case ev of
        Iterate \<Rightarrow>
          if isDone st \<or> terminated st then None
          else (case assignWork cfg st of (d, st1) \<Rightarrow> Some (st1\<lparr>isDone := d\<rparr>))
      | Deliver k \<Rightarrow>
          if terminated st \<or> length (workers st) \<le> k then None
          else (case in_flight (workers st ! k) of
                  None \<Rightarrow> None
                | Some chunk \<Rightarrow>
                    Some (on_message k (worker_reply chunk)
                            (st\<lparr>workers := (workers st)
                                  [k := (workers st ! k)\<lparr>in_flight := None\<rparr>]\<rparr>)))
      | Finish \<Rightarrow>
          if isDone st \<and> \<not> terminated st then Some (st\<lparr>terminated := True\<rparr>) else None)"

fun run :: "Config \<Rightarrow> 'p dispatcher \<Rightarrow> event list \<Rightarrow> 'p dispatcher option" where
  "run cfg st [] = Some st"
| "run cfg st (ev # evs) =
     (case step cfg ev st of None \<Rightarrow> None | Some st1 \<Rightarrow> run cfg st1 evs)"

text \<open>The chunks that were sent and whose answer has not been handled.\<close>

definition outstanding :: "'p dispatcher \<Rightarrow> nat" where
  "outstanding st = length (filter (\<lambda>w. in_flight w \<noteq> None) (workers st))"

section \<open>gradosACardinal\<close>

text \<open>
  \<open>parseInt\<close> of a text of decimal digits: \<open>NaN\<close> for the empty text, \<open>Infinity\<close> when the
  value is at or above \<open>2^1024 - 2^970\<close>, from where on the nearest double is infinite.
\<close>

definition is_digit :: "char \<Rightarrow> bool" where
  "is_digit c = (48 \<le> (of_char c :: nat) \<and> (of_char c :: nat) \<le> 57)"

definition digits_value :: "string \<Rightarrow> nat" where
  "digits_value ds = foldl (\<lambda>a c. 10 * a + (of_char c - 48)) 0 ds"

definition parseInt_digits :: "string \<Rightarrow> jsnum" where
  "parseInt_digits ds =
     (if ds = [] then NaN
      else if 2 ^ 1024 - 2 ^ 970 \<le> digits_value ds then PInf
      else Fin (real (digits_value ds)))"

text \<open>The remainder operator \<open>%\<close>.\<close>

fun num_mod :: "jsnum \<Rightarrow> jsnum \<Rightarrow> jsnum" where
  "num_mod (Fin a) (Fin b) = (if b = 0 then NaN else Fin (a - b * trunc (a / b)))"
| "num_mod (Fin a) PInf = Fin a"
| "num_mod (Fin a) NInf = Fin a"
| "num_mod _ _ = NaN"

definition sectors :: "(real \<times> string) list" where
  "sectors = [(22.5, ''N''), (67.5, ''NE''), (112.5, ''E''), (157.5, ''SE''),
              (202.5, ''S''), (247.5, ''SW''), (292.5, ''W''), (337.5, ''NW''), (360, ''N'')]"

text \<open>
  \<open>gradosACardinal\<close>, for a text. \<open>sectors.find(...)\<close> is \<open>undefined\<close> when no sector
  matches, and reading \<open>.dir\<close> of it throws a TypeError.
\<close>

definition gradosACardinal :: "string \<Rightarrow> js_error + string" where
  "gradosACardinal grados =
     (let numericValue = num_or (parseInt_digits (filter is_digit grados)) (Fin 0);
          normalized = num_mod (num_add (num_mod numericValue (Fin 360)) (Fin 360)) (Fin 360)
      in case find (\<lambda>s. num_le normalized (Fin (fst s))) sectors of
           None \<Rightarrow> Inl TypeError
         | Some s \<Rightarrow> Inr (snd s))"

section \<open>The defaults by column name, and example inputs\<close>



text \<open>A sample at time \<open>t\<close> (milliseconds) with value \<open>v\<close>.\<close>

definition point_at :: "real \<Rightarrow> real \<Rightarrow> tspoint" where
  "point_at t v = \<lparr>point_x = Some (Date (Fin t)), point_y = Fin v\<rparr>"

text \<open>
  The model of the example of the specification: all lags \<open>0\<close>, weights
  \<open>{palmas: 1, itu: 0, ba: 0}\<close>, \<open>windFactor = 0\<close>, \<open>offset = 0\<close>.
\<close>

definition example_model :: ModelConfig where
  "example_model =
     \<lparr>weights = [''palmas'' \<mapsto> Fin 1, ''itu'' \<mapsto> Fin 0, ''ba'' \<mapsto> Fin 0],
      lags = [''palmas'' \<mapsto> Fin 0, ''itu'' \<mapsto> Fin 0, ''ba'' \<mapsto> Fin 0, ''vientos'' \<mapsto> Fin 0],
      windCoeffs = [''N'' \<mapsto> Fin 1],
      windFactor = Fin 0, offset = Fin 0\<rparr>"

text \<open>One palmas sample an hour before the target time, and no wind sample.\<close>

definition no_wind_data :: InputData where
  "no_wind_data = \<lparr>palmas = [point_at 0 2], itu = [], ba = [], vientos = [], target = []\<rparr>"

text \<open>A palmas series of one point, at the time and with the value of the one observation.\<close>

definition exact_match_data :: InputData where
  "exact_match_data =
     \<lparr>palmas = [point_at 3600000 5], itu = [], ba = [], vientos = [],
      target = [point_at 3600000 5]\<rparr>"

text \<open>The text \<open>n[object Object]0\<close> for a number \<open>n\<close>.\<close>

definition object_text :: "real \<Rightarrow> jsval" where
  "object_text n = JStr (NumText (Fin n) # lit ''[object Object]'' @ [NumText (Fin 0)])"

definition chunks_of_2 :: Config where
  "chunks_of_2 = CONFIG\<lparr>chunkSize := 2\<rparr>"

definition chunks_of_1 :: Config where
  "chunks_of_1 = CONFIG\<lparr>chunkSize := 1\<rparr>"

text \<open>The digit \<open>1\<close> followed by 309 zeros.\<close>

definition huge_degrees :: string where
  "huge_degrees = CHR ''1'' # replicate 309 CHR ''0''"

section \<open>Nearest-neighbour lookup\<close>

lemma closer_cases: "closer tt prev cur = prev \<or> closer tt prev cur = cur"
  by (simp add: closer_def Let_def)

lemma foldl_closer_mem: "foldl (closer tt) acc xs \<in> insert acc (set xs)"
proof (induction xs arbitrary: acc)
  case Nil
  show ?case by simp
next
  case (Cons p xs)
  have "foldl (closer tt) (closer tt acc p) xs \<in> insert (closer tt acc p) (set xs)"
    by (rule Cons.IH)
  moreover have "closer tt acc p = acc \<or> closer tt acc p = p"
    by (rule closer_cases)
  ultimately show ?case by auto
qed

text \<open>
  The callback on a sample with a valid time other than the target time: the sample
  replaces the accumulator when the accumulator has no valid time, when its time is the
  target time itself (its difference \<open>0\<close> is turned into \<open>Infinity\<close> by \<open>||\<close>), or when the
  sample is strictly closer.
\<close>

lemma closer_fin:
  assumes "x_time cur = Fin tc" "tc \<noteq> q"
  shows "closer (Fin q) prev cur =
     (if (case x_time prev of Fin tp \<Rightarrow> tp = q \<or> \<bar>tc - q\<bar> < \<bar>tp - q\<bar> | _ \<Rightarrow> True)
      then cur else prev)"
  using assms
  by (cases "x_time prev")
     (auto simp: closer_def Let_def num_or_def num_truthy_def num_sub_def)

lemma foldl_closer_skip:
  assumes "x_time acc = Fin ta" "ta \<noteq> q"
    and "\<forall>p\<in>set xs. \<exists>t. x_time p = Fin t \<and> t \<noteq> q \<and> \<bar>ta - q\<bar> \<le> \<bar>t - q\<bar>"
  shows "foldl (closer (Fin q)) acc xs = acc"
  using assms
proof (induction xs)
  case Nil
  then show ?case by simp
next
  case (Cons p xs)
  then obtain t where t: "x_time p = Fin t" "t \<noteq> q" "\<bar>ta - q\<bar> \<le> \<bar>t - q\<bar>"
    by auto
  have "closer (Fin q) acc p = acc"
    using t Cons.prems(1,2) by (simp add: closer_fin)
  with Cons show ?case by simp
qed

text \<open>
  Claim C8. In a series whose samples have the valid times \<open>ts\<close>, strictly increasing,
  a lookup at a time \<open>q\<close> strictly between \<open>ts ! i\<close> and \<open>ts ! Suc i\<close> returns the value of
  the one of the two samples that is closer to \<open>q\<close>, and the value of the earlier one,
  which is scanned first, when both are equally close.
\<close>

theorem findClosestValue_between:
  assumes times: "map x_time data = map Fin ts"
    and sorted: "sorted_wrt (<) ts"
    and i: "Suc i < length ts"
    and lo: "ts ! i < q" and hi: "q < ts ! Suc i"
  shows "findClosestValue data (Some (Date (Fin q))) =
           (if \<bar>ts ! i - q\<bar> \<le> \<bar>ts ! Suc i - q\<bar>
            then point_y (data ! i) else point_y (data ! Suc i))"
proof -
  let ?f = "closer (Fin q)"
  let ?init = "\<lparr>point_x = None, point_y = Fin 0\<rparr>"
  have len: "length data = length ts"
    using times by (metis length_map)
  have xt: "x_time (data ! j) = Fin (ts ! j)" if "j < length ts" for j
    using times that len by (metis nth_map)
  have mono: "ts ! j < ts ! k" if "j < k" "k < length ts" for j k
    using sorted that by (simp add: sorted_wrt_iff_nth_less)
  define a where "a = data ! i"
  define b where "b = data ! Suc i"
  define pre where "pre = take i data"
  define post where "post = drop (Suc (Suc i)) data"
  have split: "data = pre @ a # b # post"
    unfolding pre_def a_def b_def post_def using i len
    by (metis Cons_nth_drop_Suc Suc_lessD append_take_drop_id)
  have xa: "x_time a = Fin (ts ! i)" and xb: "x_time b = Fin (ts ! Suc i)"
    using xt i by (simp_all add: a_def b_def)
  have pre_lt: "\<exists>t. x_time p = Fin t \<and> t < ts ! i" if "p \<in> set pre" for p
  proof -
    from that obtain j where j: "j < i" "p = data ! j"
      unfolding pre_def using i len by (auto simp: in_set_conv_nth)
    with i have "x_time p = Fin (ts ! j)" "ts ! j < ts ! i"
      by (simp_all add: xt mono)
    then show ?thesis by blast
  qed
  have post_gt: "\<exists>t. x_time p = Fin t \<and> ts ! Suc i < t" if "p \<in> set post" for p
  proof -
    from that obtain j where j: "j < length data - Suc (Suc i)" "p = data ! (Suc (Suc i) + j)"
      unfolding post_def by (auto simp: in_set_conv_nth)
    with len have "x_time p = Fin (ts ! (Suc (Suc i) + j))"
      "ts ! Suc i < ts ! (Suc (Suc i) + j)"
      by (simp_all add: xt mono)
    then show ?thesis by blast
  qed
  define r where "r = foldl ?f ?init pre"
  have r_mem: "r \<in> insert ?init (set pre)"
    unfolding r_def by (rule foldl_closer_mem)
  have step_a: "?f r a = a"
  proof (cases "r = ?init")
    case True
    then show ?thesis using xa lo by (simp add: closer_fin x_time_def)
  next
    case False
    with r_mem have "r \<in> set pre" by simp
    then obtain t where "x_time r = Fin t" "t < ts ! i"
      using pre_lt by blast
    then show ?thesis using xa lo by (simp add: closer_fin)
  qed
  define w where "w = (if \<bar>ts ! i - q\<bar> \<le> \<bar>ts ! Suc i - q\<bar> then a else b)"
  have step_b: "?f a b = w"
    using xa xb lo hi by (simp add: closer_fin w_def)
  have "\<exists>tw. x_time w = Fin tw \<and> tw \<noteq> q \<and> \<bar>tw - q\<bar> \<le> \<bar>ts ! Suc i - q\<bar>"
    using xa xb lo hi by (auto simp: w_def)
  then obtain tw where tw: "x_time w = Fin tw" "tw \<noteq> q" "\<bar>tw - q\<bar> \<le> \<bar>ts ! Suc i - q\<bar>"
    by blast
  have "\<forall>p\<in>set post. \<exists>t. x_time p = Fin t \<and> t \<noteq> q \<and> \<bar>tw - q\<bar> \<le> \<bar>t - q\<bar>"
  proof
    fix p assume "p \<in> set post"
    then obtain t where "x_time p = Fin t" "ts ! Suc i < t"
      using post_gt by blast
    with hi tw(3) show "\<exists>t. x_time p = Fin t \<and> t \<noteq> q \<and> \<bar>tw - q\<bar> \<le> \<bar>t - q\<bar>"
      by (intro exI[of _ t]) auto
  qed
  then have "foldl ?f w post = w"
    using tw by (intro foldl_closer_skip) auto
  then have "foldl ?f ?init data = w"
    by (simp add: split r_def[symmetric] step_a step_b)
  then show ?thesis
    by (simp add: findClosestValue_def isNaN_def w_def a_def b_def)
qed

text \<open>
  Samples at 10, 20 and 40: a lookup at 30 is as far from 20 as from 40 and returns the
  value at 20; a lookup at 17 returns the value at 20.
\<close>

theorem findClosestValue_between_witness:
  "findClosestValue [point_at 10 1, point_at 20 2, point_at 40 3] (Some (Date (Fin 30))) = Fin 2
   \<and> findClosestValue [point_at 10 1, point_at 20 2, point_at 40 3] (Some (Date (Fin 17))) = Fin 2"
  using findClosestValue_between
          [of "[point_at 10 1, point_at 20 2, point_at 40 3]" "[10, 20, 40]" 1 30]
        findClosestValue_between
          [of "[point_at 10 1, point_at 20 2, point_at 40 3]" "[10, 20, 40]" 0 17]
  by (simp add: point_at_def x_time_def)

section \<open>Rounding\<close>

lemma ilog2_bounds: "0 < n \<Longrightarrow> 2 ^ ilog2 n \<le> n \<and> n < 2 ^ Suc (ilog2 n)"
proof (induction n rule: ilog2.induct)
  case (1 n)
  show ?case
  proof (cases "n < 2")
    case True
    with "1.prems" show ?thesis by (simp add: ilog2.simps[of n])
  next
    case False
    then have "0 < n div 2" by simp
    with "1.IH" False
    have ih: "2 ^ ilog2 (n div 2) \<le> n div 2" "n div 2 < 2 ^ Suc (ilog2 (n div 2))"
      by simp_all
    have eq: "ilog2 n = Suc (ilog2 (n div 2))"
      using False by (simp add: ilog2.simps[of n])
    from ih show ?thesis unfolding eq by auto
  qed
qed

lemma ilog2_numeral:
  "ilog2 (numeral k) = (if numeral k < (2::nat) then 0 else Suc (ilog2 (numeral k div 2)))"
  by (rule ilog2.simps)

lemma ilog2_small: "ilog2 0 = 0" "ilog2 1 = 0" "ilog2 (Suc 0) = 0"
  by (simp_all add: ilog2.simps)

lemma round_half_even_int: "round_half_even (of_int j) = j"
  by (simp add: round_half_even_def)

text \<open>An integer of magnitude at most \<open>2^53\<close> is a double: rounding leaves it as it is.\<close>

lemma round64_of_int:
  assumes "\<bar>k\<bar> \<le> 2 ^ 53"
  shows "round64 (of_int k) = Fin (of_int k)"
proof (cases "k = 0")
  case True
  then show ?thesis by (simp add: round64_def)
next
  case False
  define a where "a = nat \<bar>k\<bar>"
  define x :: real where "x = of_int k"
  have a: "0 < a" "a \<le> 2 ^ 53" "\<bar>x\<bar> = real a"
    using False assms by (auto simp: a_def x_def nat_le_iff)
  have fl: "nat \<lfloor>\<bar>x\<bar>\<rfloor> = a"
    by (simp add: a(3))
  have ex: "exponent2 x = int (ilog2 a)"
    using a by (simp add: exponent2_def fl)
  from ilog2_bounds[OF a(1)] have b: "2 ^ ilog2 a \<le> a" "a < 2 ^ Suc (ilog2 a)"
    by simp_all
  have p53: "(2::nat) ^ ilog2 a \<le> 2 ^ 53"
    using b(1) a(2) by linarith
  have le53: "ilog2 a \<le> 53"
  proof (rule power_le_imp_le_exp)
    show "(1::nat) < 2" by simp
    show "(2::nat) ^ ilog2 a \<le> 2 ^ 53" by (rule p53)
  qed
  have r: "of_int (round_half_even (\<bar>x\<bar> / pow2 (int (ilog2 a) - 52)))
             * pow2 (int (ilog2 a) - 52) = real a"
  proof (cases "ilog2 a \<le> 52")
    case True
    define d where "d = 52 - ilog2 a"
    have q: "pow2 (int (ilog2 a) - 52) = 1 / 2 ^ d"
      using True by (auto simp: pow2_def d_def nat_diff_distrib)
    have "\<bar>x\<bar> / (1 / 2 ^ d) = of_int (int (a * 2 ^ d))"
      by (simp add: a(3))
    then have "round_half_even (\<bar>x\<bar> / (1 / 2 ^ d)) = int (a * 2 ^ d)"
      by (simp only: round_half_even_int)
    then show ?thesis by (simp add: q)
  next
    case False
    with le53 have e: "ilog2 a = 53" by simp
    with b(1) a(2) have a53: "a = 2 ^ 53" by simp
    have q: "pow2 1 = 2"
      by (simp add: pow2_def)
    have "\<bar>x\<bar> / 2 = of_int (2 ^ 52)"
      by (simp add: a(3) a53)
    then have "round_half_even (\<bar>x\<bar> / 2) = 2 ^ 52"
      by (simp only: round_half_even_int)
    then show ?thesis unfolding e by (simp add: q a53)
  qed
  have small: "\<not> (2::real) ^ 1024 \<le> real a"
  proof -
    have "real a \<le> 2 ^ 53"
      using a(2) by (metis of_nat_le_iff of_nat_numeral of_nat_power)
    moreover have "(2::real) ^ 53 < 2 ^ 1024" by simp
    ultimately show ?thesis by linarith
  qed
  have sg: "sgn x * real a = x"
    using a(3) by (simp add: sgn_if abs_if split: if_splits)
  have xne: "x \<noteq> 0"
    using False by (simp add: x_def)
  have mx: "max (exponent2 x) (- 1022) - 52 = int (ilog2 a) - 52"
    by (simp add: ex)
  have "round64 x = Fin x"
    unfolding round64_def Let_def mx r
    using xne small sg by simp
  then show ?thesis by (simp only: x_def)
qed

lemma round64_small:
  "round64 0 = Fin 0" "round64 1 = Fin 1" "round64 2 = Fin 2" "round64 3 = Fin 3"
  "round64 4 = Fin 4" "round64 5 = Fin 5" "round64 (- 1) = Fin (- 1)"
  using round64_of_int[of 0] round64_of_int[of 1] round64_of_int[of 2] round64_of_int[of 3]
    round64_of_int[of 4] round64_of_int[of 5] round64_of_int[of "- 1"]
  by simp_all

text \<open>The double \<open>1e-10\<close> lies a little above \<open>10^-10\<close>.\<close>

lemma double_1e_10_value: "double_1e_10 = Fin (7737125245533627 / 2 ^ 86)"
  by (simp add: double_1e_10_def round64_def exponent2_def pow2_def round_half_even_def
      Let_def ilog2_numeral ilog2_small)


section \<open>Metrics\<close>
















text \<open>
  \<open>evaluate\<close> hands \<open>results_from\<close> of the observations and of the predictions to
  \<open>calculateMetrics\<close>, when no prediction throws.
\<close>

lemma evaluate_loop_results:
  "list_all2 (\<lambda>tp p. predict cfg tp inputData = Inr p) tps preds \<Longrightarrow>
   evaluate_loop cfg inputData tps res =
     Inr \<lparr>predictions = predictions res @ preds,
          observations = observations res @ map point_y tps,
          errors = errors res @ errors (results_from (map point_y tps) preds)\<rparr>"
proof (induction tps preds arbitrary: res rule: list_all2_induct)
  case Nil
  then show ?case by (simp add: results_from_def)
next
  case (Cons tp tps p preds)
  have "evaluate_loop cfg inputData (tp # tps) res =
        evaluate_loop cfg inputData tps (push_result res tp p)"
    using Cons.hyps(1) by simp
  also have "\<dots> =
     Inr \<lparr>predictions = predictions (push_result res tp p) @ preds,
          observations = observations (push_result res tp p) @ map point_y tps,
          errors = errors (push_result res tp p)
                   @ errors (results_from (map point_y tps) preds)\<rparr>"
    by (rule Cons.IH)
  finally show ?case by (simp add: push_result_def results_from_def)
qed

lemma evaluate_results_from:
  "list_all2 (\<lambda>tp p. predict cfg tp inputData = Inr p) (target inputData) preds \<Longrightarrow>
   evaluate cfg inputData =
     Inr (calculateMetrics (results_from (map point_y (target inputData)) preds))"
  by (simp add: evaluate_def evaluate_loop_results results_from_def)

text \<open>
  Two computations in which rounding decides the outcome. Five observations
  \<open>2^53 - 1\<close>: their sum rounds, the mean is \<open>2^53 - 2\<close> and \<open>ssTotal\<close> is \<open>5\<close>, not
  \<open>0\<close>; with the predictions \<open>2^53 - 3\<close> the result is \<open>r2 = -3\<close>. The observations
  \<open>0\<close> and \<open>8348043408212981 / 2^69\<close>: the exact sum of squares lies above \<open>10^-10\<close>,
  and \<open>ssTotal\<close> is the double \<open>1e-10\<close>, so the test \<open>ssTotal <= 1e-10\<close> holds.
\<close>

lemma ssTotal_rounded_mean:
  "meanObserved [Fin (2 ^ 53 - 1), Fin (2 ^ 53 - 1), Fin (2 ^ 53 - 1), Fin (2 ^ 53 - 1),
                 Fin (2 ^ 53 - 1)] = Fin (2 ^ 53 - 2)"
  "ssTotal [Fin (2 ^ 53 - 1), Fin (2 ^ 53 - 1), Fin (2 ^ 53 - 1), Fin (2 ^ 53 - 1),
            Fin (2 ^ 53 - 1)] = Fin 5"
  by (simp_all add: ssTotal_def meanObserved_def fl_add_def fl_sub_def fl_div_def
      fl_pow2_def num_sub_def num_pow2_def round64_def exponent2_def pow2_def
      round_half_even_def Let_def ilog2_numeral ilog2_small)

lemma metrics_rounded_mean:
  "calculateMetrics
     (results_from
        [Fin (2 ^ 53 - 1), Fin (2 ^ 53 - 1), Fin (2 ^ 53 - 1), Fin (2 ^ 53 - 1),
         Fin (2 ^ 53 - 1)]
        (map JNum [Fin (2 ^ 53 - 3), Fin (2 ^ 53 - 3), Fin (2 ^ 53 - 3), Fin (2 ^ 53 - 3),
                   Fin (2 ^ 53 - 3)]))
   = \<lparr>r2 = Fin (- 3), rmse = Fin 2,
      kept_predictions =
        Some (map JNum [Fin (2 ^ 53 - 3), Fin (2 ^ 53 - 3), Fin (2 ^ 53 - 3),
                        Fin (2 ^ 53 - 3), Fin (2 ^ 53 - 3)])\<rparr>"
proof -
  have r: "round64 8 = Fin 8" "round64 12 = Fin 12" "round64 16 = Fin 16"
    "round64 20 = Fin 20" "round64 (- 3) = Fin (- 3)"
    using round64_of_int[of 8] round64_of_int[of 12] round64_of_int[of 16]
      round64_of_int[of 20] round64_of_int[of "- 3"]
    by simp_all
  have sse: "sumSquaredErrors [Fin 2, Fin 2, Fin 2, Fin 2, Fin 2] = Fin 20"
    by (simp add: sumSquaredErrors_def fl_add_def fl_mul_def round64_small r)
  have e: "errors (results_from
        [Fin (2 ^ 53 - 1), Fin (2 ^ 53 - 1), Fin (2 ^ 53 - 1), Fin (2 ^ 53 - 1),
         Fin (2 ^ 53 - 1)]
        (map JNum [Fin (2 ^ 53 - 3), Fin (2 ^ 53 - 3), Fin (2 ^ 53 - 3), Fin (2 ^ 53 - 3),
                   Fin (2 ^ 53 - 3)])) = [Fin 2, Fin 2, Fin 2, Fin 2, Fin 2]"
    by (simp add: results_from_def js_sub_def fl_sub_def num_sub_def round64_small)
  have gt: "\<not> num_le (Fin 5) double_1e_10"
    by (simp add: double_1e_10_value)
  have fx: "toFixed4 (Fin (- 3)) = Fin (- 3)" "toFixed4 (Fin 2) = Fin 2"
    by (simp_all add: round64_small r)
  show ?thesis
    unfolding calculateMetrics_def Let_def e sse
    using gt ssTotal_rounded_mean(2)
    by (simp add: results_from_def fl_sub_def fl_div_def fl_sqrt_def
        num_sub_def round64_small r fx del: toFixed4.simps)
qed






section \<open>Prediction\<close>

text \<open>
  \<open>calculateWindComponent\<close> returns the object of \<open>getDefaultWindValues\<close> on every path:
  the \<open>windPoint\<close> that step 3 obtains is a number, whose \<open>direction\<close> is \<open>undefined\<close>, so
  step 4 always returns. Hence \<open>predict\<close>, when it returns, returns a text, never a
  number.
\<close>

lemma calculateWindComponent_default:
  "calculateWindComponent cfg targetPoint windData = getDefaultWindValues"
  by (simp add: calculateWindComponent_def Let_def split: option.split)

lemma predict_text:
  "predict cfg targetPoint inputData = Inr v \<Longrightarrow> \<exists>t. v = JStr t"
  by (auto simp: predict_def Let_def calculateWindComponent_default getDefaultWindValues_def
        js_add_def split: sum.splits)

lemma trunc_hour: "trunc 3600000 = 3600000"
  by (simp add: trunc_def)

text \<open>
  Claim C1, at a failing input. With the example model, one palmas sample of value 2 and
  an empty wind series, \<open>predict\<close> at the target time 3600000 returns the text
  \<open>2[object Object]0\<close>: the wind term is the default object, not the number \<open>0\<close>, and
  the result is not a number.
\<close>

theorem predict_returns_text_without_wind:
  "predict example_model (point_at 3600000 5) no_wind_data = Inr (object_text 2)
   \<and> (\<forall>n. predict example_model (point_at 3600000 5) no_wind_data \<noteq> Inr (JNum n))"
proof -
  have "predict example_model (point_at 3600000 5) no_wind_data = Inr (object_text 2)"
    by (simp add: predict_def calculateComponent_def calculateWindComponent_default
        example_model_def point_at_def no_wind_data_def Let_def lagged_def num_at_def
        num_sub_def isNaN_def findClosestValue_def closer_def x_time_def num_or_def
        num_truthy_def js_add_def getDefaultWindValues_def trunc_hour object_text_def)
  then show ?thesis
    by (simp add: object_text_def)
qed

text \<open>
  A sample that lies exactly at the target time is never selected: its difference \<open>0\<close>
  is falsy, so \<open>|| Infinity\<close> replaces it by \<open>Infinity\<close>, which is below no difference.
\<close>

lemma num_lt_PInf: "\<not> num_lt PInf v"
  by (cases v) simp_all

lemma closer_exact_match_skipped:
  "x_time cur = Fin q \<Longrightarrow> closer (Fin q) prev cur = prev"
  by (simp add: closer_def Let_def num_or_def num_truthy_def num_sub_def num_lt_PInf)

text \<open>
  The lookup of the example: the only sample lies exactly at the target time, and the
  initial \<open>{y: 0}\<close> is kept.
\<close>

lemma exact_match_lookup:
  "findClosestValue [point_at 3600000 5] (Some (Date (Fin 3600000))) = Fin 0"
  by (simp add: findClosestValue_def isNaN_def closer_def Let_def x_time_def point_at_def
      num_or_def num_truthy_def num_sub_def)

lemma exact_match_predict:
  "predict example_model (point_at 3600000 5) exact_match_data = Inr (object_text 0)"
  by (simp add: predict_def calculateComponent_def calculateWindComponent_default
      example_model_def point_at_def exact_match_data_def Let_def lagged_def num_at_def
      num_sub_def isNaN_def findClosestValue_def closer_def x_time_def num_or_def
      num_truthy_def js_add_def getDefaultWindValues_def trunc_hour object_text_def)

text \<open>
  Claim C5, at the input of the example. The palmas series has one point, at the target
  time and with the observed value 5. The lookup returns 0 and not 5, the prediction is
  the text \<open>0[object Object]0\<close> and not 5, and \<open>evaluate\<close> returns \<open>rmse = NaN\<close>.
\<close>

theorem exact_match_example_diverges:
  "findClosestValue (palmas exact_match_data) (Some (Date (Fin 3600000))) = Fin 0
   \<and> predict example_model (point_at 3600000 5) exact_match_data = Inr (object_text 0)
   \<and> evaluate example_model exact_match_data =
       Inr \<lparr>r2 = Fin 0, rmse = NaN, kept_predictions = Some [object_text 0]\<rparr>"
proof -
  let ?r0 = "\<lparr>predictions = [], observations = [], errors = []\<rparr>"
  let ?tp = "point_at 3600000 5"
  have tgt: "target exact_match_data = [?tp]" and pal: "palmas exact_match_data = [?tp]"
    by (simp_all add: exact_match_data_def)
  have "evaluate_loop example_model exact_match_data [?tp] ?r0 =
          Inr (push_result ?r0 ?tp (object_text 0))"
    by (simp add: exact_match_predict)
  moreover have "calculateMetrics (push_result ?r0 ?tp (object_text 0)) =
     \<lparr>r2 = Fin 0, rmse = NaN, kept_predictions = Some [object_text 0]\<rparr>"
    by (simp add: push_result_def calculateMetrics_def Let_def js_sub_def lit_def
        sumSquaredErrors_def ssTotal_def meanObserved_def fl_add_def fl_sub_def fl_mul_def
        fl_div_def fl_sqrt_def fl_pow2_def num_sub_def num_pow2_def round64_small
        double_1e_10_value point_at_def object_text_def)
  ultimately have "evaluate example_model exact_match_data =
       Inr \<lparr>r2 = Fin 0, rmse = NaN, kept_predictions = Some [object_text 0]\<rparr>"
    by (simp add: evaluate_def tgt)
  then show ?thesis
    by (simp add: pal exact_match_lookup exact_match_predict)
qed

section \<open>Rows of the partial and of the final file\<close>

















lemma combine_content_rows:
  "row \<in> set (combine_content content) \<Longrightarrow>
     \<exists>ln. row = join_with CHR '';'' (normalizedParts ln) @ [CHR 0x0A]"
  by (auto simp: combine_content_def split: if_splits)














section \<open>Files of the workers\<close>

lemma show_nat_1: "show_nat (Suc 0) = ''1''"
  by (simp add: digit_char_def)

text \<open>The start of a worker does not depend on its \<open>workerId\<close>.\<close>

lemma worker_start_ignores_id:
  "worker_start cfg numlen i fs = worker_start cfg numlen j fs"
  by (simp add: worker_start_def)

text \<open>
  Claim C4, at a failing input. The workers 0 and 1 of the default configuration start
  in the same way, whatever their \<open>workerId\<close>: each opens
  \<open>./resultados_parciales/results_1.csv\<close>. When worker 1 starts after worker 0, on the
  files that worker 0 left, it opens the very path that worker 0 holds open.
\<close>

theorem workers_open_the_same_file:
  "worker_start CONFIG numlen 0 fs = worker_start CONFIG numlen 1 fs
   \<and> (\<exists>w0 fs0 w1 fs1.
         worker_start CONFIG numlen 0 fs = Inr (w0, fs0)
         \<and> worker_start CONFIG numlen 1 fs0 = Inr (w1, fs1)
         \<and> currentFile w0 = Some ''./resultados_parciales/results_1.csv''
         \<and> currentFile w1 = Some ''./resultados_parciales/results_1.csv'')"
  by (simp add: worker_start_def openNewFile_def writeToFile_def new_ResultWriter_def
      CONFIG_def Let_def path_join_def show_nat_1 del: show_nat.simps)

section \<open>Dispatcher\<close>

text \<open>
  The loop that fills a chunk: with fewer than \<open>k\<close> values left, nothing is returned and
  the values pulled are lost with the generator; otherwise the chunk is the next \<open>k\<close>
  values.
\<close>

lemma pull_short: "length g < k \<Longrightarrow> pull k g chunk = (None, [])"
  by (induction k g chunk rule: pull.induct) simp_all

lemma pull_full: "k \<le> length g \<Longrightarrow> pull k g chunk = (Some (chunk @ take k g), drop k g)"
  by (induction k g chunk rule: pull.induct) simp_all

text \<open>
  A round of \<open>assignWork\<close> that finds an idle worker and fewer values than a chunk
  holds ends the loop, empties the generator and posts nothing.
\<close>

lemma assignWork_drops_partial:
  assumes "find_idle (workers st) = Some k"
    and "length (paramsGenerator st) < chunkSize cfg"
  shows "assignWork cfg st = (True, st\<lparr>paramsGenerator := []\<rparr>)"
  using assms by (simp add: assignWork_def pull_short)

text \<open>
  Claim C2, at a failing input. Three parameter sets, chunks of two, two workers: the
  first round sends \<open>[1, 2]\<close> to worker 0, whose answer is handled; the second round
  finds the generator done after one value and ends the loop. The run ends with no
  chunk outstanding, one chunk posted, the generator empty and two sets processed:
  the third set was never sent.
\<close>

theorem dispatcher_drops_partial_chunk:
  "\<exists>st. run chunks_of_2 (init_dispatcher chunks_of_2 [1, 2, 3 :: nat])
            [Iterate, Deliver 0, Iterate, Finish] = Some st
        \<and> posted st = [(0, [1, 2])]
        \<and> totalProcessed st = JNum (Fin 2)
        \<and> paramsGenerator st = []
        \<and> terminated st \<and> outstanding st = 0"
  by (simp add: chunks_of_2_def CONFIG_def init_dispatcher_def step_def assignWork_def
      on_message_def worker_reply_def js_add_def outstanding_def numeral_2_eq_2)

text \<open>
  Claim C3, at a failing execution. One parameter set, chunks of one, two workers: the
  first round sends the chunk to worker 0; the second round finds worker 1 idle and the
  generator done, and ends the loop. The workers are terminated while the chunk of
  worker 0 is outstanding, and nothing has been counted as processed.
\<close>

theorem main_finishes_with_chunk_outstanding:
  "\<exists>st. run chunks_of_1 (init_dispatcher chunks_of_1 [7 :: nat])
            [Iterate, Iterate, Finish] = Some st
        \<and> terminated st
        \<and> outstanding st = 1
        \<and> in_flight (workers st ! 0) = Some [7]
        \<and> totalProcessed st = JNum (Fin 0)"
  by (simp add: chunks_of_1_def CONFIG_def init_dispatcher_def step_def assignWork_def
      on_message_def worker_reply_def js_add_def outstanding_def numeral_2_eq_2)

text \<open>
  The answer of a worker has no field \<open>relevant\<close>, so the handler adds \<open>undefined\<close> to
  both \<open>relevant\<close> counters.
\<close>

lemma on_message_reply_relevant:
  "totalRelevant st = JNum v \<Longrightarrow>
     totalRelevant (on_message k (worker_reply chunk) st) = JNum NaN"
  by (cases v) (simp_all add: on_message_def worker_reply_def js_add_def Let_def)

text \<open>
  Claim C9, at a failing input. After the first answer of a worker, \<open>totalRelevant\<close> is
  \<open>NaN\<close>, which is not greater than or equal to its previous value \<open>0\<close>;
  \<open>totalProcessed\<close> has gone from 0 to 1.
\<close>

theorem totalRelevant_becomes_NaN:
  "\<exists>st. run chunks_of_1 (init_dispatcher chunks_of_1 [7 :: nat]) [Iterate, Deliver 0] = Some st
        \<and> totalRelevant st = JNum NaN
        \<and> \<not> num_le (Fin 0) (ToNumber (totalRelevant st))
        \<and> totalProcessed st = JNum (Fin 1)"
  by (simp add: chunks_of_1_def CONFIG_def init_dispatcher_def step_def assignWork_def
      on_message_def worker_reply_def js_add_def outstanding_def numeral_2_eq_2)

section \<open>Degrees to cardinal direction\<close>

lemma digits_value_zeros:
  "foldl (\<lambda>a c. 10 * a + (of_char c - 48)) (a::nat) (replicate k CHR ''0'') = a * 10 ^ k"
  by (induction k arbitrary: a) simp_all

lemma overflow_threshold: "(2::nat) ^ 1024 - 2 ^ 970 \<le> 10 ^ 309"
  by simp

lemma gradosACardinal_infinite:
  "parseInt_digits (filter is_digit s) = PInf \<Longrightarrow> gradosACardinal s = Inl TypeError"
  by (simp add: gradosACardinal_def num_or_def num_truthy_def sectors_def)

lemma remainder_360:
  assumes "0 \<le> a"
  shows "0 \<le> a - 360 * trunc (a / 360) \<and> a - 360 * trunc (a / 360) < 360"
proof -
  define k where "k = real_of_int \<lfloor>a / 360\<rfloor>"
  have t: "trunc (a / 360) = k"
    using assms by (simp add: trunc_def k_def)
  have "k \<le> a / 360" "a / 360 < k + 1"
    unfolding k_def by linarith+
  then have "k * 360 \<le> a" "a < (k + 1) * 360"
    by (simp_all add: le_divide_eq divide_less_eq)
  then show ?thesis unfolding t by (simp add: algebra_simps)
qed

text \<open>
  Below the overflow threshold the function returns one of the eight directions; a text
  without digits gives \<open>N\<close>.
\<close>

lemma gradosACardinal_below_overflow:
  assumes "digits_value (filter is_digit s) < 2 ^ 1024 - 2 ^ 970"
  shows "\<exists>d\<in>set directions. gradosACardinal s = Inr d"
proof -
  have below: "\<not> 2 ^ 1024 - 2 ^ 970 \<le> digits_value (filter is_digit s)"
    using assms by (simp only: not_le)
  have "\<exists>a\<ge>0. num_or (parseInt_digits (filter is_digit s)) (Fin 0) = Fin a"
  proof (cases "filter is_digit s = []")
    case True
    then show ?thesis by (simp add: parseInt_digits_def num_or_def num_truthy_def)
  next
    case False
    then have "parseInt_digits (filter is_digit s)
                 = Fin (real (digits_value (filter is_digit s)))"
      unfolding parseInt_digits_def using below by (simp only: if_False)
    then show ?thesis by (simp add: num_or_def num_truthy_def)
  qed
  then obtain a where a: "num_or (parseInt_digits (filter is_digit s)) (Fin 0) = Fin a" "0 \<le> a"
    by blast
  define m where "m = a - 360 * trunc (a / 360)"
  have m: "0 \<le> m" "m < 360"
    using remainder_360[OF a(2)] by (simp_all add: m_def)
  define n where "n = (m + 360) - 360 * trunc ((m + 360) / 360)"
  have n: "0 \<le> n" "n < 360"
    using remainder_360[of "m + 360"] m by (simp_all add: n_def)
  have norm: "num_mod (num_add (num_mod (Fin a) (Fin 360)) (Fin 360)) (Fin 360) = Fin n"
    by (simp add: m_def n_def)
  show ?thesis
    unfolding gradosACardinal_def a(1) Let_def norm
    using n by (simp add: sectors_def directions_def)
qed

lemma gradosACardinal_no_digits: "filter is_digit s = [] \<Longrightarrow> gradosACardinal s = Inr ''N''"
  by (simp add: gradosACardinal_def parseInt_digits_def num_or_def num_truthy_def
      sectors_def trunc_def)

lemma digits_value_bound_aux:
  "\<forall>c\<in>set ds. is_digit c \<Longrightarrow>
     foldl (\<lambda>a c. 10 * a + (of_char c - 48)) (a::nat) ds + 1 \<le> (a + 1) * 10 ^ length ds"
proof (induction ds arbitrary: a)
  case Nil
  then show ?case by simp
next
  case (Cons c ds)
  then have "(of_char c :: nat) \<le> 57"
    by (simp add: is_digit_def)
  then have d: "(of_char c :: nat) - 48 \<le> 9"
    by arith
  have "foldl (\<lambda>a c. 10 * a + (of_char c - 48)) (10 * a + (of_char c - 48)) ds + 1
          \<le> (10 * a + (of_char c - 48) + 1) * 10 ^ length ds"
    using Cons by simp
  also have "\<dots> \<le> (10 * a + 10) * 10 ^ length ds"
    using d by (intro mult_right_mono) simp_all
  finally show ?case by (simp add: algebra_simps)
qed

lemma digits_value_bound: "digits_value (filter is_digit s) < 10 ^ length (filter is_digit s)"
  using digits_value_bound_aux[of "filter is_digit s" 0]
  by (simp add: digits_value_def)

lemma below_308: "(10::nat) ^ 308 \<le> 2 ^ 1024 - 2 ^ 970"
  by simp

lemma digits_308:
  assumes "length (filter is_digit s) \<le> 308"
  shows "digits_value (filter is_digit s) < 2 ^ 1024 - 2 ^ 970"
proof -
  have "digits_value (filter is_digit s) < 10 ^ length (filter is_digit s)"
    by (rule digits_value_bound)
  also have "\<dots> \<le> (10::nat) ^ 308"
    using assms by (intro power_increasing) simp_all
  also have "\<dots> \<le> 2 ^ 1024 - 2 ^ 970"
    by (rule below_308)
  finally show ?thesis .
qed

lemma filter_350: "filter is_digit ''350 grados'' = ''350''"
  by (simp add: is_digit_def)

lemma filter_abc: "filter is_digit ''abc'' = []"
  by (simp add: is_digit_def)

text \<open>
  Claim C10 fails as it is stated, for every input text. For the digit 1 followed by 309
  zeros \<open>parseInt\<close> is \<open>Infinity\<close>, the normalised value is \<open>NaN\<close>, no sector matches
  and the function throws a TypeError instead of returning a direction.
\<close>

theorem gradosACardinal_overflow_throws:
  "gradosACardinal huge_degrees = Inl TypeError"
proof -
  have f: "filter is_digit huge_degrees = huge_degrees"
    by (simp add: is_digit_def huge_degrees_def)
  have v: "digits_value huge_degrees = 10 ^ 309"
    by (simp add: digits_value_def digits_value_zeros huge_degrees_def)
  have ne: "huge_degrees \<noteq> []"
    by (simp add: huge_degrees_def)
  have "parseInt_digits huge_degrees = PInf"
    unfolding parseInt_digits_def v using overflow_threshold ne by simp
  then show ?thesis
    by (intro gradosACardinal_infinite) (simp only: f)
qed

text \<open>
  Claim C10, amended. For every input text whose digits denote a value below the
  overflow threshold \<open>2^1024 - 2^970\<close>, and so for every text with at most 308 digits,
  the function returns one of the eight directions: the other characters are stripped
  and the normalised value falls inside a sector. A text without digits is treated as
  \<open>0\<close> and gives \<open>N\<close>.
\<close>

theorem gradosACardinal_total_below_overflow:
  "(digits_value (filter is_digit s) < 2 ^ 1024 - 2 ^ 970 \<longrightarrow>
      (\<exists>d\<in>set directions. gradosACardinal s = Inr d))
   \<and> (length (filter is_digit s) \<le> 308 \<longrightarrow>
      (\<exists>d\<in>set directions. gradosACardinal s = Inr d))
   \<and> (filter is_digit s = [] \<longrightarrow> gradosACardinal s = Inr ''N'')"
  using gradosACardinal_below_overflow[of s] digits_308[of s] gradosACardinal_no_digits[of s]
  by blast

text \<open>The texts \<open>abc\<close>, without digits, and \<open>350 grados\<close>.\<close>

theorem gradosACardinal_total_below_overflow_witness:
  "gradosACardinal ''abc'' = Inr ''N''
   \<and> (\<exists>d. d \<in> set directions \<and> gradosACardinal ''350 grados'' = Inr d)"
proof -
  have "filter is_digit ''abc'' = [] \<longrightarrow> gradosACardinal ''abc'' = Inr ''N''"
    using gradosACardinal_total_below_overflow[of "''abc''"] by blast
  then have 1: "gradosACardinal ''abc'' = Inr ''N''"
    using filter_abc by blast
  have "length (filter is_digit ''350 grados'') \<le> 308 \<longrightarrow>
          (\<exists>d\<in>set directions. gradosACardinal ''350 grados'' = Inr d)"
    using gradosACardinal_total_below_overflow[of "''350 grados''"] by blast
  moreover have "length (filter is_digit ''350 grados'') \<le> 308"
    by (simp only: filter_350) simp
  ultimately have "\<exists>d\<in>set directions. gradosACardinal ''350 grados'' = Inr d"
    by blast
  with 1 show ?thesis by blast
qed

end
